theory Spec2Isabelle
  imports Main
begin

section \<open>The generator of pace/bricks: build orchestration\<close>

text \<open>
  The Go package \<open>generator\<close> turns an OpenAPIv3 document into Go source text.
  This theory embeds the two entry points of the file that declares the
  \<open>Generator\<close> struct: \<open>BuildSource\<close> (load a document from a URL or a path, then
  build) and \<open>BuildSchema\<close> (reset the generator, run the build stages, render).

  Go values are modelled as follows.
  \<^item> \<open>error\<close> is a datatype; a Go result \<open>(v, err)\<close> of a library call is a sum
    \<open>error + 'a\<close> (\<open>Inl\<close> the error), and the result \<open>(string, error)\<close> of the
    entry points is a pair \<open>string \<times> error option\<close> (\<open>None\<close> is \<open>nil\<close>).
  \<^item> A method on \<open>*Generator\<close> mutates its receiver: the model takes the
    generator and returns the updated one next to the result.
  \<^item> \<open>*jen.File\<close> is a pointer: the field \<open>goSource\<close> is an option (\<open>None\<close> is
    \<open>nil\<close>, the zero value of a \<open>Generator\<close>).
  \<^item> \<open>map[string]bool\<close> is a map \<open>string \<rightharpoonup> bool\<close>; \<open>make\<close> gives the empty map.
  \<^item> Library functions (\<open>net/url\<close>, \<open>net/http\<close>, \<open>io/ioutil\<close>, the openapi3
    loader, \<open>fmt.Sprintf\<close> on the jen file) are fields of a record of
    collaborators, so every theorem holds for whatever they compute. They are
    functions: one call with the same arguments gives the same result, which
    is what "an unchanged source" means below.
\<close>

datatype error =
    UrlParseError string
  | HttpError string
  | ReadError string
  | LoadParseError string
  | UnsupportedPrimitiveError string
  | NamingCollisionError string
  | NilPointerError

subsection \<open>The emission buffer: a jen file\<close>

datatype Location = InPath | InQuery | InHeader

datatype TypeExpr =
    Scalar string
  | Named string
  | ArrayOfNamed string
  | SliceOf TypeExpr
  | Struct "(string \<times> TypeExpr) list"

datatype Declaration =
    GeneratedType string TypeExpr
  | GeneratedArrayType string
  | GeneratedHandler string "(string \<times> Location) list" "string list" "TypeExpr option"

record jen_File =
  filePath :: string
  fileName :: string
  fileComments :: "string list"
  fileImportAliases :: "(string \<times> string) list"
  fileDecls :: "Declaration list"

text \<open>\<open>jen.NewFilePathName\<close>, \<open>PackageComment\<close> and \<open>ImportAlias\<close>: the calls
  \<open>BuildSchema\<close> makes on the file, recorded in call order.\<close>

definition NewFilePathName :: "string \<Rightarrow> string \<Rightarrow> jen_File" where
  "NewFilePathName packagePath packageName =
     \<lparr>filePath = packagePath, fileName = packageName, fileComments = [],
      fileImportAliases = [], fileDecls = []\<rparr>"

definition PackageComment :: "jen_File \<Rightarrow> string \<Rightarrow> jen_File" where
  "PackageComment f c = f\<lparr>fileComments := fileComments f @ [c]\<rparr>"

definition ImportAlias :: "jen_File \<Rightarrow> string \<Rightarrow> string \<Rightarrow> jen_File" where
  "ImportAlias f path alias = f\<lparr>fileImportAliases := fileImportAliases f @ [(path, alias)]\<rparr>"

subsection \<open>The generator and its collaborators\<close>

record Generator =
  goSource :: "jen_File option"
  serviceName :: string
  generatedTypes :: "string \<rightharpoonup> bool"
  generatedArrayTypes :: "string \<rightharpoonup> bool"

type_synonym 's buildFunc = "'s \<Rightarrow> Generator \<Rightarrow> error option \<times> Generator"

record ('s, 'u, 'r) Collaborators =
  BuildTypes :: "'s buildFunc"
  BuildHandler :: "'s buildFunc"
  Sprintf_goSource :: "jen_File option \<Rightarrow> string"
  pkgJSONAPIMetrics :: string
  pkgOpentracing :: string
  url_Parse :: "string \<Rightarrow> error + 'u"
  url_String :: "'u \<Rightarrow> string"
  http_Get :: "string \<Rightarrow> error + 'r"
  ioutil_ReadAll :: "'r \<Rightarrow> error + string"
  ioutil_ReadFile :: "string \<Rightarrow> error + string"
  LoadSwaggerFromData :: "string \<Rightarrow> error + 's"

text \<open>\<open>strings.HasPrefix\<close>: \<open>len(s) >= len(prefix) && s[:len(prefix)] == prefix\<close>.\<close>

definition HasPrefix :: "string \<Rightarrow> string \<Rightarrow> bool" where
  "HasPrefix s p = (length p \<le> length s \<and> take (length p) s = p)"

text \<open>\<open>loadSwaggerFromURI\<close>: GET the URL, read the whole body, parse it; the
  first error is returned.\<close>

definition loadSwaggerFromURI :: "('s, 'u, 'r) Collaborators \<Rightarrow> 'u \<Rightarrow> error + 's" where
  "loadSwaggerFromURI E url =
     (case http_Get E (url_String E url) of
        Inl err \<Rightarrow> Inl err
      | Inr resp \<Rightarrow>
         (case ioutil_ReadAll E resp of
            Inl err \<Rightarrow> Inl err
          | Inr body \<Rightarrow>
             (case LoadSwaggerFromData E body of
                Inl err \<Rightarrow> Inl err
              | Inr schema \<Rightarrow> Inr schema)))"

text \<open>The loop \<open>for _, bf := range buildFuncs\<close> of \<open>BuildSchema\<close>: each stage
  runs on the generator the previous one left; the first error ends the loop.\<close>

fun runBuildFuncs :: "'s buildFunc list \<Rightarrow> 's \<Rightarrow> Generator \<Rightarrow> error option \<times> Generator" where
  "runBuildFuncs [] schema g = (None, g)"
| "runBuildFuncs (bf # bfs) schema g =
     (case bf schema g of
        (Some err, g') \<Rightarrow> (Some err, g')
      | (None, g') \<Rightarrow> runBuildFuncs bfs schema g')"

definition provenance :: string where
  "provenance = ''// Code generated by github.com/pace/bricks DO NOT EDIT.''"

definition BuildSchema ::
  "('s, 'u, 'r) Collaborators \<Rightarrow> Generator \<Rightarrow> 's \<Rightarrow> string \<Rightarrow> string
     \<Rightarrow> (string \<times> error option) \<times> Generator" where
  "BuildSchema E g schema packagePath packageName =
     (let g1 = g\<lparr>generatedTypes := Map.empty\<rparr>;
          g2 = g1\<lparr>generatedArrayTypes := Map.empty\<rparr>;
          f0 = NewFilePathName packagePath packageName;
          f1 = PackageComment f0 provenance;
          f2 = ImportAlias f1 (pkgJSONAPIMetrics E) ''metrics'';
          f3 = ImportAlias f2 (pkgOpentracing E) ''opentracing'';
          g3 = g2\<lparr>goSource := Some f3\<rparr>;
          g4 = g3\<lparr>serviceName := packageName\<rparr>
      in case runBuildFuncs [BuildTypes E, BuildHandler E] schema g4 of
           (Some err, g') \<Rightarrow> (('''', Some err), g')
         | (None, g') \<Rightarrow> ((Sprintf_goSource E (goSource g'), None), g'))"

definition BuildSource ::
  "('s, 'u, 'r) Collaborators \<Rightarrow> Generator \<Rightarrow> string \<Rightarrow> string \<Rightarrow> string
     \<Rightarrow> (string \<times> error option) \<times> Generator" where
  "BuildSource E g source packagePath packageName =
     (if HasPrefix source ''http://'' \<or> HasPrefix source ''https://'' then
        (case url_Parse E source of
           Inl err \<Rightarrow> (('''', Some err), g)
         | Inr loc \<Rightarrow>
            (case loadSwaggerFromURI E loc of
               Inl err \<Rightarrow> (('''', Some err), g)
             | Inr schema \<Rightarrow> BuildSchema E g schema packagePath packageName))
      else
        (case ioutil_ReadFile E source of
           Inl err \<Rightarrow> (('''', Some err), g)
         | Inr data \<Rightarrow>
            (case LoadSwaggerFromData E data of
               Inl err \<Rightarrow> (('''', Some err), g)
             | Inr schema \<Rightarrow> BuildSchema E g schema packagePath packageName)))"

text \<open>The generator as \<open>BuildSchema\<close> hands it to the first stage.\<close>

definition freshGenerator :: "('s, 'u, 'r) Collaborators \<Rightarrow> string \<Rightarrow> string \<Rightarrow> Generator" where
  "freshGenerator E packagePath packageName =
     \<lparr>goSource = Some \<lparr>filePath = packagePath, fileName = packageName,
                        fileComments = [provenance],
                        fileImportAliases = [(pkgJSONAPIMetrics E, ''metrics''),
                                             (pkgOpentracing E, ''opentracing'')],
                        fileDecls = []\<rparr>,
      serviceName = packageName,
      generatedTypes = Map.empty,
      generatedArrayTypes = Map.empty\<rparr>"

subsection \<open>Example collaborators\<close>

text \<open>A concrete set of collaborators, used to run the entry points on
  concrete inputs: stages that append one declaration each (and fail on
  marked documents), a renderer that lists what the file holds, and a world
  with one reachable URL and one readable file.\<close>

definition emit :: "Declaration \<Rightarrow> Generator \<Rightarrow> Generator" where
  "emit d g = g\<lparr>goSource := map_option (\<lambda>f. f\<lparr>fileDecls := fileDecls f @ [d]\<rparr>) (goSource g)\<rparr>"

definition exampleBuildTypes :: "string buildFunc" where
  "exampleBuildTypes schema g =
     (if schema = ''bad types'' then (Some (UnsupportedPrimitiveError schema), g)
      else (None, emit (GeneratedType schema (Scalar ''string''))
                    (g\<lparr>generatedTypes := (generatedTypes g)(schema \<mapsto> True)\<rparr>)))"

definition exampleBuildHandler :: "string buildFunc" where
  "exampleBuildHandler schema g =
     (if schema = ''bad handler'' then (Some (NamingCollisionError schema), g)
      else (None, emit (GeneratedHandler schema [] [] None) g))"

fun declName :: "Declaration \<Rightarrow> string" where
  "declName (GeneratedType n t) = ''type '' @ n @ ''; ''"
| "declName (GeneratedArrayType n) = ''type []'' @ n @ ''; ''"
| "declName (GeneratedHandler n ps vs b) = ''func '' @ n @ ''; ''"

definition exampleSprintf :: "jen_File option \<Rightarrow> string" where
  "exampleSprintf p =
     (case p of
        None \<Rightarrow> ''<nil>''
      | Some f \<Rightarrow> concat (fileComments f) @ '' package '' @ fileName f @ ''; ''
                  @ concat (map (\<lambda>(path, alias). ''import '' @ alias @ ''; '') (fileImportAliases f))
                  @ concat (map declName (fileDecls f)))"

definition exampleEnv :: "(string, string, string) Collaborators" where
  "exampleEnv =
     \<lparr>BuildTypes = exampleBuildTypes,
      BuildHandler = exampleBuildHandler,
      Sprintf_goSource = exampleSprintf,
      pkgJSONAPIMetrics = ''example.org/metrics'',
      pkgOpentracing = ''example.org/opentracing'',
      url_Parse = (\<lambda>s. if s = ''http://%'' then Inl (UrlParseError s) else Inr s),
      url_String = (\<lambda>u. u),
      http_Get = (\<lambda>u. if u = ''http://example.org/api.json'' then Inr ''Pet''
                        else if u = ''https://example.org/broken'' then Inr ''''
                        else if u = ''https://example.org/cut'' then Inr ''truncated''
                        else Inl (HttpError u)),
      ioutil_ReadAll = (\<lambda>r. if r = ''truncated'' then Inl (ReadError r) else Inr r),
      ioutil_ReadFile = (\<lambda>p. if p = ''ftp://files/api.json'' then Inr ''Pet''
                               else if p = ''empty.json'' then Inr ''''
                               else Inl (ReadError p)),
      LoadSwaggerFromData = (\<lambda>d. if d = '''' then Inl (LoadParseError d) else Inr d)\<rparr>"

definition zeroGenerator :: Generator where
  "zeroGenerator = \<lparr>goSource = None, serviceName = '''', generatedTypes = Map.empty,
                     generatedArrayTypes = Map.empty\<rparr>"

section \<open>The build stages, modelled from the specification\<close>

text \<open>
  \<open>BuildSchema\<close> calls two stages, \<open>g.BuildTypes\<close> and \<open>g.BuildHandler\<close>, whose
  bodies are in other files of the package. The definitions of this section
  give them the behaviour the specification describes for the Type Resolver
  (4.1) and the Handler Synthesizer (4.2), over the specification's data
  model (3); they act on the same \<open>Generator\<close> as \<open>BuildSchema\<close>: the
  emission buffer \<open>goSource\<close> and the two deduplication maps.
\<close>

subsection \<open>Data model\<close>

text \<open>Modelled from the spec: the document types of section 3 (the parsed
  \<open>openapi3.Swagger\<close> value is not declared in this repository). A SchemaNode
  is a primitive, an object with ordered fields, an array or a reference by
  name; a document maps schema names to nodes (an association list read with
  \<open>map_of\<close>) and lists its path items, each with its operations, in document
  order.\<close>

datatype PrimitiveKind = KString | KInt | KBool | KNumber | KDate | KOther string

datatype SchemaNode =
    Primitive PrimitiveKind
  | Object "(string \<times> SchemaNode) list"
  | Array SchemaNode
  | Reference string

record Parameter =
  paramName :: string
  paramIn :: Location
  paramSchema :: SchemaNode
  paramRequired :: bool

record Operation =
  operationId :: string
  parameters :: "Parameter list"
  body :: "SchemaNode option"

record PathItem =
  pathTemplate :: string
  operations :: "(string \<times> Operation) list"

record SchemaDocument =
  schemas :: "(string \<times> SchemaNode) list"
  paths :: "PathItem list"

subsection \<open>Type Resolver\<close>

text \<open>Modelled from the spec: the primitive mapping of 4.1. The five kinds
  of the data model map to a native scalar type; any other kind has none,
  which is the unsupported-primitive error of the resolver.\<close>

fun goScalar :: "PrimitiveKind \<Rightarrow> string option" where
  "goScalar KString = Some ''string''"
| "goScalar KInt = Some ''int64''"
| "goScalar KBool = Some ''bool''"
| "goScalar KNumber = Some ''float64''"
| "goScalar KDate = Some ''time.Time''"
| "goScalar (KOther k) = None"

fun kindName :: "PrimitiveKind \<Rightarrow> string" where
  "kindName KString = ''string''"
| "kindName KInt = ''integer''"
| "kindName KBool = ''boolean''"
| "kindName KNumber = ''number''"
| "kindName KDate = ''date''"
| "kindName (KOther k) = k"

text \<open>Reading a Go \<open>map[string]bool\<close>: an absent key reads as \<open>false\<close>.\<close>

definition marked :: "(string \<rightharpoonup> bool) \<Rightarrow> string \<Rightarrow> bool" where
  "marked m n = (m n = Some True)"

definition isObjectName :: "(string \<times> SchemaNode) list \<Rightarrow> string \<Rightarrow> bool" where
  "isObjectName S n = (case map_of S n of Some (Object fs) \<Rightarrow> True | _ \<Rightarrow> False)"

text \<open>Modelled from the spec: the type a node is rendered as inside a
  declaration. A reference is rendered as the name it refers to, never as
  the type behind it ("emit a reference to the named type rather than
  recursing"); an array of a named object type is rendered as that type's
  array wrapper.\<close>

primrec typeExpr :: "(string \<times> SchemaNode) list \<Rightarrow> SchemaNode \<Rightarrow> TypeExpr" where
  "typeExpr S (Primitive k) = Scalar (case goScalar k of Some t \<Rightarrow> t | None \<Rightarrow> kindName k)"
| "typeExpr S (Object fs) = Struct (map (map_prod id (typeExpr S)) fs)"
| "typeExpr S (Array e) =
     (case e of
        Reference n \<Rightarrow> if isObjectName S n then ArrayOfNamed n else SliceOf (Named n)
      | _ \<Rightarrow> SliceOf (typeExpr S e))"
| "typeExpr S (Reference n) = Named n"

text \<open>Modelled from the spec: emitting one GeneratedType, keyed by its source
  name in \<open>generatedTypes\<close>, and one array wrapper, keyed by the element
  type's name in \<open>generatedArrayTypes\<close> (3 and 4.1). The wrapper is emitted
  for an array whose element is a named object type, once per element name.\<close>

definition declareType :: "(string \<times> SchemaNode) list \<Rightarrow> string \<Rightarrow> SchemaNode \<Rightarrow> Generator \<Rightarrow> Generator" where
  "declareType S n node g =
     emit (GeneratedType n (typeExpr S node)) (g\<lparr>generatedTypes := (generatedTypes g)(n \<mapsto> True)\<rparr>)"

definition declareArray :: "(string \<times> SchemaNode) list \<Rightarrow> SchemaNode \<Rightarrow> Generator \<Rightarrow> Generator" where
  "declareArray S e g =
     (case e of
        Reference n \<Rightarrow>
          if isObjectName S n \<and> \<not> marked (generatedArrayTypes g) n
          then emit (GeneratedArrayType n) (g\<lparr>generatedArrayTypes := (generatedArrayTypes g)(n \<mapsto> True)\<rparr>)
          else g
      | _ \<Rightarrow> g)"

text \<open>Modelled from the spec: the JSON:API resource envelope of section 3, "a
  top-level data member containing type, id, attributes, relationships".
  References are followed through the document first, at most once per
  schema name, so a chain of references that never reaches a node is no
  envelope.\<close>

fun deref :: "(string \<times> SchemaNode) list \<Rightarrow> nat \<Rightarrow> SchemaNode \<Rightarrow> SchemaNode" where
  "deref S 0 node = node"
| "deref S (Suc fuel) (Reference n) =
     (case map_of S n of None \<Rightarrow> Reference n | Some node \<Rightarrow> deref S fuel node)"
| "deref S (Suc fuel) node = node"

definition resolveNode :: "(string \<times> SchemaNode) list \<Rightarrow> SchemaNode \<Rightarrow> SchemaNode" where
  "resolveNode S node = deref S (Suc (length (remdups (map fst S)))) node"

definition isEnvelope :: "(string \<times> SchemaNode) list \<Rightarrow> SchemaNode \<Rightarrow> bool" where
  "isEnvelope S node =
     (case resolveNode S node of
        Object fs \<Rightarrow>
          (case map_of fs ''data'' of
             None \<Rightarrow> False
           | Some d \<Rightarrow>
              (case resolveNode S d of
                 Object ms \<Rightarrow> list_all (\<lambda>m. m \<in> fst ` set ms)
                                [''type'', ''id'', ''attributes'', ''relationships'']
               | _ \<Rightarrow> False))
      | _ \<Rightarrow> False)"

text \<open>Modelled from the spec: where resolution starts (4.1). The operations
  are taken in document order; each contributes its parameters' schemas and
  then its body, and a body that is not an envelope is skipped, with no type
  and no error.\<close>

definition operationsOf :: "SchemaDocument \<Rightarrow> Operation list" where
  "operationsOf doc = concat (map (\<lambda>p. map snd (operations p)) (paths doc))"

definition rootsOf :: "(string \<times> SchemaNode) list \<Rightarrow> Operation \<Rightarrow> SchemaNode list" where
  "rootsOf S op =
     map paramSchema (parameters op)
     @ (case body op of None \<Rightarrow> [] | Some b \<Rightarrow> if isEnvelope S b then [b] else [])"

definition rootsOfAll :: "(string \<times> SchemaNode) list \<Rightarrow> Operation list \<Rightarrow> SchemaNode list" where
  "rootsOfAll S ops = concat (map (rootsOf S) ops)"

text \<open>The two measures of the resolver's progress: the schema names of the
  document not yet generated, and the size of the nodes still to visit.\<close>

primrec nodeSize :: "SchemaNode \<Rightarrow> nat" where
  "nodeSize (Primitive k) = 1"
| "nodeSize (Object fs) = Suc (sum_list (map snd (map (map_prod id nodeSize) fs)))"
| "nodeSize (Array e) = Suc (nodeSize e)"
| "nodeSize (Reference n) = 1"

definition pending :: "(string \<times> SchemaNode) list \<Rightarrow> Generator \<Rightarrow> nat" where
  "pending S g = card {n \<in> fst ` set S. \<not> marked (generatedTypes g) n}"

text \<open>Modelled from the spec: the Type Resolver of 4.1, a depth-first walk
  with an explicit stack of the nodes still to visit.
  \<^item> A primitive of a supported kind emits nothing; an unsupported kind is a
    generation error, which ends the walk.
  \<^item> An object is entered: its fields are visited in order, before the rest.
  \<^item> An array emits the wrapper of its element type (see \<open>declareArray\<close>),
    then its element is visited.
  \<^item> A reference to a name that is already in \<open>generatedTypes\<close> (generated or
    in progress) is not followed again. A reference to a new name marks the
    name, emits its type where it is first discovered, and then visits the
    node it names. A name the document does not define yields nothing.
\<close>

function walk :: "(string \<times> SchemaNode) list \<Rightarrow> SchemaNode list \<Rightarrow> Generator \<Rightarrow> error option \<times> Generator" where
  "walk S [] g = (None, g)"
| "walk S (Primitive k # rest) g =
     (case goScalar k of
        None \<Rightarrow> (Some (UnsupportedPrimitiveError (kindName k)), g)
      | Some t \<Rightarrow> walk S rest g)"
| "walk S (Object fs # rest) g = walk S (map snd fs @ rest) g"
| "walk S (Array e # rest) g = walk S (e # rest) (declareArray S e g)"
| "walk S (Reference n # rest) g =
     (if marked (generatedTypes g) n then walk S rest g
      else case map_of S n of
             None \<Rightarrow> walk S rest g
           | Some node \<Rightarrow> walk S (node # rest) (declareType S n node g))"
  by pat_completeness auto

text \<open>Modelled from the spec: the stage \<open>BuildTypes\<close>, the Type Resolver run on
  the roots of all operations of the document.\<close>

definition specBuildTypes :: "SchemaDocument buildFunc" where
  "specBuildTypes doc g = walk (schemas doc) (rootsOfAll (schemas doc) (operationsOf doc)) g"

subsection \<open>Handler Synthesizer\<close>

text \<open>Modelled from the spec: conformance of an operation (4.2): each
  parameter is a known scalar or a reference to a schema of the document,
  and a body, if there is one, is a JSON:API envelope.\<close>

definition paramConforms :: "(string \<times> SchemaNode) list \<Rightarrow> Parameter \<Rightarrow> bool" where
  "paramConforms S p =
     (case paramSchema p of
        Primitive k \<Rightarrow> goScalar k \<noteq> None
      | Reference n \<Rightarrow> map_of S n \<noteq> None
      | _ \<Rightarrow> False)"

definition conformant :: "(string \<times> SchemaNode) list \<Rightarrow> Operation \<Rightarrow> bool" where
  "conformant S op =
     (list_all (paramConforms S) (parameters op)
      \<and> (case body op of None \<Rightarrow> True | Some b \<Rightarrow> isEnvelope S b))"

text \<open>What the emission buffer holds, by kind of declaration.\<close>

definition declsOf :: "Generator \<Rightarrow> Declaration list" where
  "declsOf g = (case goSource g of None \<Rightarrow> [] | Some f \<Rightarrow> fileDecls f)"

fun handlerNames :: "Declaration list \<Rightarrow> string list" where
  "handlerNames [] = []"
| "handlerNames (GeneratedHandler n ps vs b # ds) = n # handlerNames ds"
| "handlerNames (d # ds) = handlerNames ds"

fun typeNames :: "Declaration list \<Rightarrow> string list" where
  "typeNames [] = []"
| "typeNames (GeneratedType n t # ds) = n # typeNames ds"
| "typeNames (d # ds) = typeNames ds"

fun arrayTypeNames :: "Declaration list \<Rightarrow> string list" where
  "arrayTypeNames [] = []"
| "arrayTypeNames (GeneratedArrayType n # ds) = n # arrayTypeNames ds"
| "arrayTypeNames (d # ds) = arrayTypeNames ds"

text \<open>Modelled from the spec: the handler of one operation (4.2): named by
  the operation identifier, with one extraction statement per parameter (by
  its location), one validator per required parameter, and the type of the
  body.\<close>

definition handlerName :: "Operation \<Rightarrow> string" where
  "handlerName op = operationId op"

definition handlerFor :: "(string \<times> SchemaNode) list \<Rightarrow> Operation \<Rightarrow> Declaration" where
  "handlerFor S op =
     GeneratedHandler (handlerName op)
       (map (\<lambda>p. (paramName p, paramIn p)) (parameters op))
       (map paramName (filter paramRequired (parameters op)))
       (map_option (typeExpr S) (body op))"

text \<open>Modelled from the spec: the Handler Synthesizer of 4.2 over the
  operations in document order. An operation that does not conform is
  skipped; a conformant one whose handler name is already in the buffer is a
  naming collision, which ends synthesis; otherwise its handler is appended.\<close>

fun synthesize :: "(string \<times> SchemaNode) list \<Rightarrow> Operation list \<Rightarrow> Generator \<Rightarrow> error option \<times> Generator" where
  "synthesize S [] g = (None, g)"
| "synthesize S (op # ops) g =
     (if \<not> conformant S op then synthesize S ops g
      else if handlerName op \<in> set (handlerNames (declsOf g))
           then (Some (NamingCollisionError (handlerName op)), g)
           else synthesize S ops (emit (handlerFor S op) g))"

text \<open>Modelled from the spec: the stage \<open>BuildHandler\<close>.\<close>

definition specBuildHandler :: "SchemaDocument buildFunc" where
  "specBuildHandler doc g = synthesize (schemas doc) (operationsOf doc) g"

subsection \<open>Collaborators with the modelled stages, and documents\<close>

definition specEnv :: "(SchemaDocument, string, string) Collaborators" where
  "specEnv =
     \<lparr>BuildTypes = specBuildTypes,
      BuildHandler = specBuildHandler,
      Sprintf_goSource = exampleSprintf,
      pkgJSONAPIMetrics = ''example.org/metrics'',
      pkgOpentracing = ''example.org/opentracing'',
      url_Parse = (\<lambda>s. Inr s),
      url_String = (\<lambda>u. u),
      http_Get = (\<lambda>u. Inl (HttpError u)),
      ioutil_ReadAll = (\<lambda>r. Inr r),
      ioutil_ReadFile = (\<lambda>p. Inl (ReadError p)),
      LoadSwaggerFromData = (\<lambda>d. Inl (LoadParseError d))\<rparr>"

definition envelopeOf :: "SchemaNode \<Rightarrow> SchemaNode" where
  "envelopeOf attrs =
     Object [(''data'', Object [(''type'', Primitive KString), (''id'', Primitive KString),
                               (''attributes'', attrs), (''relationships'', Object [])])]"

definition opWith :: "string \<Rightarrow> SchemaNode \<Rightarrow> Operation" where
  "opWith name b = \<lparr>operationId = name, parameters = [], body = Some b\<rparr>"

definition docOf :: "(string \<times> SchemaNode) list \<Rightarrow> Operation list \<Rightarrow> SchemaDocument" where
  "docOf S ops = \<lparr>schemas = S, paths = [\<lparr>pathTemplate = ''/items'', operations = map (Pair ''get'') ops\<rparr>]\<rparr>"



text \<open>Three operations over the same array of \<open>Foo\<close>.\<close>

definition fooDoc :: SchemaDocument where
  "fooDoc =
     docOf [(''Foo'', Object [(''name'', Primitive KString)])]
           [opWith ''listFoos'' (envelopeOf (Array (Reference ''Foo''))),
            opWith ''createFoos'' (envelopeOf (Array (Reference ''Foo''))),
            opWith ''replaceFoos'' (envelopeOf (Array (Reference ''Foo'')))]"


subsection \<open>Notions used in the statements\<close>


primrec subnodes :: "SchemaNode \<Rightarrow> SchemaNode list" where
  "subnodes (Primitive k) = [Primitive k]"
| "subnodes (Object fs) = Object fs # concat (map snd (map (map_prod id subnodes) fs))"
| "subnodes (Array e) = Array e # subnodes e"
| "subnodes (Reference n) = [Reference n]"


definition emitAll :: "Declaration list \<Rightarrow> Generator \<Rightarrow> Generator" where
  "emitAll ds g = g\<lparr>goSource := map_option (\<lambda>f. f\<lparr>fileDecls := fileDecls f @ ds\<rparr>) (goSource g)\<rparr>"

text \<open>The buffer and the deduplication maps agree: the emitted types are
  the marked names, each once, and likewise the array wrappers.\<close>

definition synced :: "Generator \<Rightarrow> bool" where
  "synced g =
     (goSource g \<noteq> None
      \<and> distinct (typeNames (declsOf g))
      \<and> set (typeNames (declsOf g)) = {n. marked (generatedTypes g) n}
      \<and> distinct (arrayTypeNames (declsOf g))
      \<and> set (arrayTypeNames (declsOf g)) = {n. marked (generatedArrayTypes g) n})"

text \<open>\<open>g'\<close> holds the declarations of \<open>g\<close> followed by declarations that are
  not handlers.\<close>

definition grows :: "Generator \<Rightarrow> Generator \<Rightarrow> bool" where
  "grows g g' = (\<exists>ds. declsOf g' = declsOf g @ ds \<and> handlerNames ds = [])"


section \<open>Termination of type resolution\<close>

text \<open>Each step of the walk either generates a schema name of the document
  that was not generated before, or leaves the generated names as they are
  and shrinks the nodes to visit: the walk ends on every document, cyclic or
  not.\<close>

lemma nodeSize_Object: "sum_list (map nodeSize (map snd fs)) < nodeSize (Object fs)"
  by (induction fs) auto

lemma pending_declareArray [simp]: "pending S (declareArray S e g) = pending S g"
  by (auto simp: pending_def declareArray_def emit_def split: SchemaNode.splits)

lemma pending_declareType:
  "map_of S n = Some node \<Longrightarrow> \<not> marked (generatedTypes g) n
     \<Longrightarrow> pending S (declareType S n node g) < pending S g"
  unfolding pending_def
proof (rule psubset_card_mono)
  assume a: "map_of S n = Some node" "\<not> marked (generatedTypes g) n"
  show "finite {n \<in> fst ` set S. \<not> marked (generatedTypes g) n}" by simp
  from a have "n \<in> fst ` set S" by (metis map_of_eq_None_iff option.distinct(1))
  with a show "{m \<in> fst ` set S. \<not> marked (generatedTypes (declareType S n node g)) m}
      \<subset> {n \<in> fst ` set S. \<not> marked (generatedTypes g) n}"
    by (auto simp: declareType_def emit_def marked_def)
qed

termination walk
  apply (relation "measures [\<lambda>(S, st, g). pending S g, \<lambda>(S, st, g). sum_list (map nodeSize st)]")
        apply simp
       apply simp
  using nodeSize_Object apply (simp add: less_Suc_eq_le order.strict_implies_order)
     apply simp
    apply simp
   apply (simp add: pending_declareType)
  apply (simp add: pending_declareType)
  done

section \<open>Properties of the build orchestration\<close>


lemma reset_is_fresh:
  "g\<lparr>generatedTypes := Map.empty, generatedArrayTypes := Map.empty,
      goSource := Some (ImportAlias (ImportAlias (PackageComment
                    (NewFilePathName packagePath packageName) provenance)
                    (pkgJSONAPIMetrics E) ''metrics'') (pkgOpentracing E) ''opentracing''),
      serviceName := packageName\<rparr> = freshGenerator E packagePath packageName"
  by (cases g) (simp add: freshGenerator_def NewFilePathName_def PackageComment_def ImportAlias_def)

lemma BuildSchema_fresh:
  "BuildSchema E g schema packagePath packageName =
     (case runBuildFuncs [BuildTypes E, BuildHandler E] schema (freshGenerator E packagePath packageName) of
        (Some err, g') \<Rightarrow> (('''', Some err), g')
      | (None, g') \<Rightarrow> ((Sprintf_goSource E (goSource g'), None), g'))"
  unfolding BuildSchema_def Let_def reset_is_fresh ..

lemma BuildSchema_any_generator:
  "BuildSchema E g schema packagePath packageName = BuildSchema E g' schema packagePath packageName"
  by (simp only: BuildSchema_fresh)

lemma BuildSource_result_any_generator:
  "fst (BuildSource E g source packagePath packageName)
     = fst (BuildSource E g' source packagePath packageName)"
  by (simp add: BuildSource_def BuildSchema_any_generator [of E g _ _ _ g']
      split: sum.splits)

lemma runBuildFuncs_stops:
  "runBuildFuncs pre schema g = (None, g1) \<Longrightarrow> bf schema g1 = (Some err, g2)
     \<Longrightarrow> runBuildFuncs (pre @ bf # post) schema g = (Some err, g2)"
  by (induction pre arbitrary: g) (auto split: prod.splits option.splits)

text \<open>
  Claim C2. \<open>BuildSchema\<close> runs type resolution (\<open>BuildTypes\<close>) and then
  handler synthesis (\<open>BuildHandler\<close>), each on the generator the previous
  stage left. If \<open>BuildTypes\<close> returns an error, the result is the empty
  string with that error, whatever \<open>BuildHandler\<close> is (it is not invoked); if
  \<open>BuildHandler\<close> returns an error, the result is the empty string with that
  error; source text is returned only when both stages succeeded. So an
  error never comes with text.
\<close>

theorem BuildSchema_fail_fast:
  "(BuildTypes E schema (freshGenerator E packagePath packageName) = (Some err, g1)
      \<longrightarrow> BuildSchema (E\<lparr>BuildHandler := bh\<rparr>) g schema packagePath packageName
            = (('''', Some err), g1))
   \<and> (BuildTypes E schema (freshGenerator E packagePath packageName) = (None, g1)
        \<and> BuildHandler E schema g1 = (Some err, g2)
      \<longrightarrow> BuildSchema E g schema packagePath packageName = (('''', Some err), g2))
   \<and> (BuildTypes E schema (freshGenerator E packagePath packageName) = (None, g1)
        \<and> BuildHandler E schema g1 = (None, g2)
      \<longrightarrow> BuildSchema E g schema packagePath packageName
            = ((Sprintf_goSource E (goSource g2), None), g2))
   \<and> (snd (fst (BuildSchema E g schema packagePath packageName)) \<noteq> None
      \<longrightarrow> fst (fst (BuildSchema E g schema packagePath packageName)) = '''')"
proof -
  have fresh_bh: "freshGenerator (E\<lparr>BuildHandler := bh\<rparr>) packagePath packageName
      = freshGenerator E packagePath packageName"
    by (simp add: freshGenerator_def)
  have a: "BuildTypes E schema (freshGenerator E packagePath packageName) = (Some err, g1)
      \<longrightarrow> BuildSchema (E\<lparr>BuildHandler := bh\<rparr>) g schema packagePath packageName
            = (('''', Some err), g1)"
    by (simp add: BuildSchema_fresh fresh_bh)
  have b: "BuildTypes E schema (freshGenerator E packagePath packageName) = (None, g1)
        \<and> BuildHandler E schema g1 = (Some err, g2)
      \<longrightarrow> BuildSchema E g schema packagePath packageName = (('''', Some err), g2)"
    by (simp add: BuildSchema_fresh)
  have c: "BuildTypes E schema (freshGenerator E packagePath packageName) = (None, g1)
        \<and> BuildHandler E schema g1 = (None, g2)
      \<longrightarrow> BuildSchema E g schema packagePath packageName
            = ((Sprintf_goSource E (goSource g2), None), g2)"
    by (simp add: BuildSchema_fresh)
  have d: "snd (fst (BuildSchema E g schema packagePath packageName)) \<noteq> None
      \<longrightarrow> fst (fst (BuildSchema E g schema packagePath packageName)) = ''''"
    by (simp add: BuildSchema_fresh split: prod.splits option.splits)
  from a b c d show ?thesis by blast
qed

theorem BuildSchema_fail_fast_witness:
  "BuildSchema (exampleEnv\<lparr>BuildHandler := undefined\<rparr>) zeroGenerator ''bad types'' ''example.org/pets'' ''pets''
     = (('''', Some (UnsupportedPrimitiveError ''bad types'')), freshGenerator exampleEnv ''example.org/pets'' ''pets'')
   \<and> fst (BuildSchema exampleEnv zeroGenerator ''bad handler'' ''example.org/pets'' ''pets'')
     = ('''', Some (NamingCollisionError ''bad handler''))
   \<and> fst (BuildSchema exampleEnv zeroGenerator ''Pet'' ''example.org/pets'' ''pets'')
     = (provenance @ '' package pets; import metrics; import opentracing; type Pet; func Pet; '', None)"
proof -
  let ?G = "freshGenerator exampleEnv ''example.org/pets'' ''pets''"
  let ?G1 = "emit (GeneratedType ''bad handler'' (Scalar ''string''))
               (?G\<lparr>generatedTypes := (generatedTypes ?G)(''bad handler'' \<mapsto> True)\<rparr>)"
  let ?P1 = "emit (GeneratedType ''Pet'' (Scalar ''string''))
               (?G\<lparr>generatedTypes := (generatedTypes ?G)(''Pet'' \<mapsto> True)\<rparr>)"
  let ?P2 = "emit (GeneratedHandler ''Pet'' [] [] None) ?P1"
  have t1: "BuildTypes exampleEnv ''bad types'' ?G = (Some (UnsupportedPrimitiveError ''bad types''), ?G)"
    by (simp add: exampleEnv_def exampleBuildTypes_def)
  have t2: "BuildTypes exampleEnv ''bad handler'' ?G = (None, ?G1)
      \<and> BuildHandler exampleEnv ''bad handler'' ?G1 = (Some (NamingCollisionError ''bad handler''), ?G1)"
    by (simp add: exampleEnv_def exampleBuildTypes_def exampleBuildHandler_def)
  have t3: "BuildTypes exampleEnv ''Pet'' ?G = (None, ?P1)
      \<and> BuildHandler exampleEnv ''Pet'' ?P1 = (None, ?P2)"
    by (simp add: exampleEnv_def exampleBuildTypes_def exampleBuildHandler_def)
  have r: "Sprintf_goSource exampleEnv (goSource ?P2)
      = provenance @ '' package pets; import metrics; import opentracing; type Pet; func Pet; ''"
    by (simp add: exampleEnv_def exampleSprintf_def emit_def freshGenerator_def)
  from t1 BuildSchema_fail_fast [where E = exampleEnv and schema = "''bad types''"
      and packagePath = "''example.org/pets''" and packageName = "''pets''"
      and err = "UnsupportedPrimitiveError ''bad types''" and ?g1.0 = ?G and bh = undefined
      and g = zeroGenerator]
  have w1: "BuildSchema (exampleEnv\<lparr>BuildHandler := undefined\<rparr>) zeroGenerator ''bad types'' ''example.org/pets'' ''pets''
     = (('''', Some (UnsupportedPrimitiveError ''bad types'')), ?G)"
    by blast
  from t2 BuildSchema_fail_fast [where E = exampleEnv and schema = "''bad handler''"
      and packagePath = "''example.org/pets''" and packageName = "''pets''"
      and err = "NamingCollisionError ''bad handler''" and ?g1.0 = ?G1 and ?g2.0 = ?G1
      and g = zeroGenerator]
  have w2: "BuildSchema exampleEnv zeroGenerator ''bad handler'' ''example.org/pets'' ''pets''
     = (('''', Some (NamingCollisionError ''bad handler'')), ?G1)"
    by blast
  from t3 BuildSchema_fail_fast [where E = exampleEnv and schema = "''Pet''"
      and packagePath = "''example.org/pets''" and packageName = "''pets''"
      and ?g1.0 = ?P1 and ?g2.0 = ?P2 and g = zeroGenerator]
  have w3: "BuildSchema exampleEnv zeroGenerator ''Pet'' ''example.org/pets'' ''pets''
     = ((Sprintf_goSource exampleEnv (goSource ?P2), None), ?P2)"
    by blast
  from w1 w2 w3 r show ?thesis by simp
qed

text \<open>
  Claim C8. Every invocation of \<open>BuildSchema\<close> hands its first stage a
  generator whose two deduplication maps are empty and whose emission buffer
  is a new file without declarations, whatever generator it was called on;
  hence the whole result (text, error and the generator left behind) is the
  same for any two generators, in particular for the one an earlier run left.
\<close>

theorem BuildSchema_starts_fresh:
  "BuildSchema (E\<lparr>BuildTypes := (\<lambda>s x. (Some err, x))\<rparr>) g schema packagePath packageName
     = (('''', Some err), freshGenerator E packagePath packageName)
   \<and> generatedTypes (freshGenerator E packagePath packageName) = Map.empty
   \<and> generatedArrayTypes (freshGenerator E packagePath packageName) = Map.empty
   \<and> map_option fileDecls (goSource (freshGenerator E packagePath packageName)) = Some []
   \<and> BuildSchema E g schema packagePath packageName
     = (case runBuildFuncs [BuildTypes E, BuildHandler E] schema
               (freshGenerator E packagePath packageName) of
          (Some err, g') \<Rightarrow> (('''', Some err), g')
        | (None, g') \<Rightarrow> ((Sprintf_goSource E (goSource g'), None), g'))
   \<and> BuildSchema E g schema packagePath packageName
     = BuildSchema E g' schema packagePath packageName"
proof -
  have "freshGenerator (E\<lparr>BuildTypes := (\<lambda>s x. (Some err, x))\<rparr>) packagePath packageName
      = freshGenerator E packagePath packageName"
    by (simp add: freshGenerator_def)
  then have "BuildSchema (E\<lparr>BuildTypes := (\<lambda>s x. (Some err, x))\<rparr>) g schema packagePath packageName
     = (('''', Some err), freshGenerator E packagePath packageName)"
    by (simp add: BuildSchema_fresh)
  moreover have "generatedTypes (freshGenerator E packagePath packageName) = Map.empty"
    and "generatedArrayTypes (freshGenerator E packagePath packageName) = Map.empty"
    and "map_option fileDecls (goSource (freshGenerator E packagePath packageName)) = Some []"
    by (simp_all add: freshGenerator_def)
  moreover note BuildSchema_fresh [of E g schema packagePath packageName]
    BuildSchema_any_generator [of E g schema packagePath packageName g']
  ultimately show ?thesis by blast
qed

theorem BuildSchema_starts_fresh_witness:
  "BuildSchema exampleEnv
       (snd (BuildSchema exampleEnv zeroGenerator ''Cat'' ''example.org/cats'' ''cats''))
       ''Pet'' ''example.org/pets'' ''pets''
     = BuildSchema exampleEnv zeroGenerator ''Pet'' ''example.org/pets'' ''pets''
   \<and> generatedTypes (snd (BuildSchema exampleEnv
        (snd (BuildSchema exampleEnv zeroGenerator ''Cat'' ''example.org/cats'' ''cats''))
        ''Pet'' ''example.org/pets'' ''pets'')) ''Cat'' = None
   \<and> generatedTypes (snd (BuildSchema exampleEnv zeroGenerator ''Cat'' ''example.org/cats'' ''cats''))
        ''Cat'' = Some True"
proof -
  let ?g = "snd (BuildSchema exampleEnv zeroGenerator ''Cat'' ''example.org/cats'' ''cats'')"
  from BuildSchema_starts_fresh [where E = exampleEnv and g = ?g and schema = "''Pet''"
      and packagePath = "''example.org/pets''" and packageName = "''pets''"
      and g' = zeroGenerator]
  have "BuildSchema exampleEnv ?g ''Pet'' ''example.org/pets'' ''pets''
     = BuildSchema exampleEnv zeroGenerator ''Pet'' ''example.org/pets'' ''pets''"
    by blast
  moreover have "generatedTypes (snd (BuildSchema exampleEnv zeroGenerator ''Pet'' ''example.org/pets'' ''pets'')) ''Cat'' = None"
    by (simp add: BuildSchema_fresh freshGenerator_def exampleEnv_def exampleBuildTypes_def
        exampleBuildHandler_def emit_def)
  moreover have "generatedTypes ?g ''Cat'' = Some True"
    by (simp add: BuildSchema_fresh freshGenerator_def exampleEnv_def exampleBuildTypes_def
        exampleBuildHandler_def emit_def)
  ultimately show ?thesis by simp
qed

text \<open>
  Claim C10. \<open>BuildSource\<close> on a source that begins with \<open>http://\<close> or
  \<open>https://\<close> parses it as a URL, fetches it over HTTP, reads the body and
  parses the bytes with the loader; on any other source, whatever scheme it
  may begin with, it reads the file of that name and parses the bytes with
  the same loader. In both branches the parsed document goes to
  \<open>BuildSchema\<close> with the same generator and package parameters, and a URL,
  fetch, read or parse error is returned with the empty string, the
  generator untouched (\<open>BuildSchema\<close> is not invoked).
\<close>

theorem BuildSource_dispatch:
  "(HasPrefix source ''http://'' \<or> HasPrefix source ''https://'' \<longrightarrow>
      (url_Parse E source = Inl err
         \<longrightarrow> BuildSource E g source packagePath packageName = (('''', Some err), g))
    \<and> (url_Parse E source = Inr loc \<and> http_Get E (url_String E loc) = Inl err
         \<longrightarrow> BuildSource E g source packagePath packageName = (('''', Some err), g))
    \<and> (url_Parse E source = Inr loc \<and> http_Get E (url_String E loc) = Inr resp
          \<and> ioutil_ReadAll E resp = Inl err
         \<longrightarrow> BuildSource E g source packagePath packageName = (('''', Some err), g))
    \<and> (url_Parse E source = Inr loc \<and> http_Get E (url_String E loc) = Inr resp
          \<and> ioutil_ReadAll E resp = Inr bytes \<and> LoadSwaggerFromData E bytes = Inl err
         \<longrightarrow> BuildSource E g source packagePath packageName = (('''', Some err), g))
    \<and> (url_Parse E source = Inr loc \<and> http_Get E (url_String E loc) = Inr resp
          \<and> ioutil_ReadAll E resp = Inr bytes \<and> LoadSwaggerFromData E bytes = Inr schema
         \<longrightarrow> BuildSource E g source packagePath packageName
               = BuildSchema E g schema packagePath packageName))
   \<and> (\<not> (HasPrefix source ''http://'' \<or> HasPrefix source ''https://'') \<longrightarrow>
      (ioutil_ReadFile E source = Inl err
         \<longrightarrow> BuildSource E g source packagePath packageName = (('''', Some err), g))
    \<and> (ioutil_ReadFile E source = Inr bytes \<and> LoadSwaggerFromData E bytes = Inl err
         \<longrightarrow> BuildSource E g source packagePath packageName = (('''', Some err), g))
    \<and> (ioutil_ReadFile E source = Inr bytes \<and> LoadSwaggerFromData E bytes = Inr schema
         \<longrightarrow> BuildSource E g source packagePath packageName
               = BuildSchema E g schema packagePath packageName))"
  by (simp add: BuildSource_def loadSwaggerFromURI_def)

theorem BuildSource_dispatch_witness:
  "BuildSource exampleEnv zeroGenerator ''http://example.org/api.json'' ''example.org/pets'' ''pets''
     = BuildSchema exampleEnv zeroGenerator ''Pet'' ''example.org/pets'' ''pets''
   \<and> BuildSource exampleEnv zeroGenerator ''ftp://files/api.json'' ''example.org/pets'' ''pets''
     = BuildSchema exampleEnv zeroGenerator ''Pet'' ''example.org/pets'' ''pets''
   \<and> BuildSource exampleEnv zeroGenerator ''http://%'' ''example.org/pets'' ''pets''
     = (('''', Some (UrlParseError ''http://%'')), zeroGenerator)
   \<and> BuildSource exampleEnv zeroGenerator ''https://example.org/gone'' ''example.org/pets'' ''pets''
     = (('''', Some (HttpError ''https://example.org/gone'')), zeroGenerator)
   \<and> BuildSource exampleEnv zeroGenerator ''https://example.org/cut'' ''example.org/pets'' ''pets''
     = (('''', Some (ReadError ''truncated'')), zeroGenerator)
   \<and> BuildSource exampleEnv zeroGenerator ''https://example.org/broken'' ''example.org/pets'' ''pets''
     = (('''', Some (LoadParseError '''')), zeroGenerator)
   \<and> BuildSource exampleEnv zeroGenerator ''HTTP://example.org/api.json'' ''example.org/pets'' ''pets''
     = (('''', Some (ReadError ''HTTP://example.org/api.json'')), zeroGenerator)
   \<and> BuildSource exampleEnv zeroGenerator ''empty.json'' ''example.org/pets'' ''pets''
     = (('''', Some (LoadParseError '''')), zeroGenerator)"
proof -
  note d = BuildSource_dispatch [where E = exampleEnv and g = zeroGenerator
      and packagePath = "''example.org/pets''" and packageName = "''pets''"]
  have 1: "BuildSource exampleEnv zeroGenerator ''http://example.org/api.json'' ''example.org/pets'' ''pets''
     = BuildSchema exampleEnv zeroGenerator ''Pet'' ''example.org/pets'' ''pets''"
    using d [where source = "''http://example.org/api.json''" and loc = "''http://example.org/api.json''"
        and resp = "''Pet''" and bytes = "''Pet''" and schema = "''Pet''"]
    by (simp add: exampleEnv_def HasPrefix_def)
  have 2: "BuildSource exampleEnv zeroGenerator ''ftp://files/api.json'' ''example.org/pets'' ''pets''
     = BuildSchema exampleEnv zeroGenerator ''Pet'' ''example.org/pets'' ''pets''"
    using d [where source = "''ftp://files/api.json''" and bytes = "''Pet''" and schema = "''Pet''"]
    by (simp add: exampleEnv_def HasPrefix_def)
  have 3: "BuildSource exampleEnv zeroGenerator ''http://%'' ''example.org/pets'' ''pets''
     = (('''', Some (UrlParseError ''http://%'')), zeroGenerator)"
    using d [where source = "''http://%''" and err = "UrlParseError ''http://%''"]
    by (simp add: exampleEnv_def HasPrefix_def)
  have 4: "BuildSource exampleEnv zeroGenerator ''https://example.org/gone'' ''example.org/pets'' ''pets''
     = (('''', Some (HttpError ''https://example.org/gone'')), zeroGenerator)"
    using d [where source = "''https://example.org/gone''" and loc = "''https://example.org/gone''"
        and err = "HttpError ''https://example.org/gone''"]
    by (simp add: exampleEnv_def HasPrefix_def)
  have 5: "BuildSource exampleEnv zeroGenerator ''https://example.org/cut'' ''example.org/pets'' ''pets''
     = (('''', Some (ReadError ''truncated'')), zeroGenerator)"
    using d [where source = "''https://example.org/cut''" and loc = "''https://example.org/cut''"
        and resp = "''truncated''" and err = "ReadError ''truncated''"]
    by (simp add: exampleEnv_def HasPrefix_def)
  have 6: "BuildSource exampleEnv zeroGenerator ''https://example.org/broken'' ''example.org/pets'' ''pets''
     = (('''', Some (LoadParseError '''')), zeroGenerator)"
    using d [where source = "''https://example.org/broken''" and loc = "''https://example.org/broken''"
        and resp = "''''" and bytes = "''''" and err = "LoadParseError ''''"]
    by (simp add: exampleEnv_def HasPrefix_def)
  have 7: "BuildSource exampleEnv zeroGenerator ''HTTP://example.org/api.json'' ''example.org/pets'' ''pets''
     = (('''', Some (ReadError ''HTTP://example.org/api.json'')), zeroGenerator)"
    using d [where source = "''HTTP://example.org/api.json''"
        and err = "ReadError ''HTTP://example.org/api.json''"]
    by (simp add: exampleEnv_def HasPrefix_def)
  have 8: "BuildSource exampleEnv zeroGenerator ''empty.json'' ''example.org/pets'' ''pets''
     = (('''', Some (LoadParseError '''')), zeroGenerator)"
    using d [where source = "''empty.json''" and bytes = "''''" and err = "LoadParseError ''''"]
    by (simp add: exampleEnv_def HasPrefix_def)
  from 1 2 3 4 5 6 7 8 show ?thesis by blast
qed

section \<open>Properties of the modelled stages\<close>

subsection \<open>The emission buffer and the deduplication maps\<close>

lemma typeNames_append [simp]: "typeNames (xs @ ys) = typeNames xs @ typeNames ys"
  by (induction xs rule: typeNames.induct) simp_all

lemma arrayTypeNames_append [simp]: "arrayTypeNames (xs @ ys) = arrayTypeNames xs @ arrayTypeNames ys"
  by (induction xs rule: arrayTypeNames.induct) simp_all

lemma handlerNames_append [simp]: "handlerNames (xs @ ys) = handlerNames xs @ handlerNames ys"
  by (induction xs rule: handlerNames.induct) simp_all

lemma declsOf_emit: "declsOf (emit d g) = (if goSource g = None then declsOf g else declsOf g @ [d])"
  by (auto simp: declsOf_def emit_def)

lemma goSource_emit_None [simp]: "(goSource (emit d g) = None) = (goSource g = None)"
  by (simp add: emit_def)

lemma generated_emit [simp]:
  "generatedTypes (emit d g) = generatedTypes g"
  "generatedArrayTypes (emit d g) = generatedArrayTypes g"
  by (simp_all add: emit_def)

lemma declsOf_update [simp]:
  "declsOf (g\<lparr>generatedTypes := m\<rparr>) = declsOf g"
  "declsOf (g\<lparr>generatedArrayTypes := m\<rparr>) = declsOf g"
  by (simp_all add: declsOf_def)


lemma synced_declareType:
  "synced g \<Longrightarrow> \<not> marked (generatedTypes g) n \<Longrightarrow> synced (declareType S n node g)"
  by (auto simp: synced_def declareType_def declsOf_emit marked_def)

lemma synced_declareArray: "synced g \<Longrightarrow> synced (declareArray S e g)"
  by (auto simp: synced_def declareArray_def declsOf_emit marked_def
      split: SchemaNode.splits)

lemma walk_synced: "synced g \<Longrightarrow> synced (snd (walk S st g))"
  by (induction S st g rule: walk.induct)
     (auto simp: synced_declareType synced_declareArray split: option.splits)

lemma list_all_snd_map_prod [simp]:
  "list_all snd (map (map_prod f P) fs) = list_all P (map snd fs)"
  by (induction fs) auto

lemma subnodes_Object:
  "set (subnodes (Object fs)) = insert (Object fs) (\<Union>y \<in> set (map snd fs). set (subnodes y))"
  by (induction fs) auto

lemma grows_refl [simp]: "grows g g"
  by (simp add: grows_def)





lemma goSource_declare [simp]:
  "(goSource (declareType S n node g) = None) = (goSource g = None)"
  "(goSource (declareArray S e g) = None) = (goSource g = None)"
  by (cases e; simp add: declareType_def declareArray_def)+

lemma walk_goSource: "goSource g \<noteq> None \<Longrightarrow> goSource (snd (walk S st g)) \<noteq> None"
  by (induction S st g rule: walk.induct) (simp_all split: option.splits)


lemma walk_marks:
  "marked (generatedTypes g) n \<Longrightarrow> marked (generatedTypes (snd (walk S st g))) n"
  "marked (generatedArrayTypes g) n \<Longrightarrow> marked (generatedArrayTypes (snd (walk S st g))) n"
  by (induction S st g rule: walk.induct)
     (auto simp: declareType_def declareArray_def marked_def split: option.splits SchemaNode.splits)

lemma walk_visits_reference:
  "fst (walk S st g) = None \<Longrightarrow> Reference n \<in> set st \<Longrightarrow> map_of S n \<noteq> None
     \<Longrightarrow> marked (generatedTypes (snd (walk S st g))) n"
proof (induction S st g rule: walk.induct)
  case (5 S m rest g)
  show ?case
  proof (cases "m = n")
    case True
    show ?thesis
    proof (cases "marked (generatedTypes g) n")
      case True
      then show ?thesis by (rule walk_marks)
    next
      case False
      from "5.prems"(3) obtain node where node: "map_of S n = Some node" by auto
      have "marked (generatedTypes (declareType S n node g)) n"
        by (simp add: declareType_def marked_def)
      then have "marked (generatedTypes (snd (walk S (node # rest) (declareType S n node g)))) n"
        by (rule walk_marks)
      with False node \<open>m = n\<close> show ?thesis by simp
    qed
  next
    case False
    with 5 show ?thesis by (auto split: option.splits if_splits)
  qed
qed (auto split: option.splits)

lemma isObjectName_defined: "isObjectName S n \<Longrightarrow> map_of S n \<noteq> None"
  by (auto simp: isObjectName_def split: option.splits)

lemma declareArray_marks:
  "isObjectName S n \<Longrightarrow> marked (generatedArrayTypes (declareArray S (Reference n) g)) n"
  by (simp add: declareArray_def marked_def)

lemma walk_visits_array:
  "fst (walk S st g) = None \<Longrightarrow> x \<in> set st \<Longrightarrow> Array (Reference n) \<in> set (subnodes x)
     \<Longrightarrow> isObjectName S n
     \<Longrightarrow> marked (generatedArrayTypes (snd (walk S st g))) n
         \<and> marked (generatedTypes (snd (walk S st g))) n"
proof (induction S st g arbitrary: x rule: walk.induct)
  case (1 S g)
  then show ?case by simp
next
  case (2 S k rest g)
  from "2.prems"(1) obtain t where t: "goScalar k = Some t"
    by (cases "goScalar k") auto
  from "2.prems"(2,3) have "x \<in> set rest" by auto
  with "2.IH" [OF t _ _ "2.prems"(3,4)] "2.prems"(1) t show ?case by simp
next
  case (3 S fs rest g)
  have "\<exists>y \<in> set (map snd fs @ rest). Array (Reference n) \<in> set (subnodes y)"
    using "3.prems"(2,3) by (force simp: subnodes_Object)
  then obtain y where "y \<in> set (map snd fs @ rest)"
    and "Array (Reference n) \<in> set (subnodes y)"
    by blast
  with "3.IH" [of y] "3.prems"(1,4) show ?case by simp
next
  case (4 S e rest g)
  let ?g = "declareArray S e g"
  from "4.prems"(1) have ok: "fst (walk S (e # rest) ?g) = None" by simp
  consider (here) "x = Array e" "e = Reference n"
    | (below) "x = Array e" "Array (Reference n) \<in> set (subnodes e)"
    | (rest) "x \<in> set rest"
    using "4.prems"(2,3) by auto
  then show ?case
  proof cases
    case here
    from "4.prems"(4) have "marked (generatedArrayTypes ?g) n"
      unfolding here(2) by (rule declareArray_marks)
    then have a: "marked (generatedArrayTypes (snd (walk S (e # rest) ?g))) n"
      by (rule walk_marks)
    from ok have "marked (generatedTypes (snd (walk S (e # rest) ?g))) n"
      by (rule walk_visits_reference) (simp_all add: here isObjectName_defined [OF "4.prems"(4)])
    with a show ?thesis by simp
  next
    case below
    with "4.IH" [of e] ok "4.prems"(4) show ?thesis by simp
  next
    case rest
    with "4.IH" [of x] ok "4.prems"(3,4) show ?thesis by simp
  qed
next
  case (5 S m rest g)
  from "5.prems"(2,3) have x: "x \<in> set rest" by auto
  show ?case
  proof (cases "marked (generatedTypes g) m")
    case True
    with "5.IH"(1) [of x] "5.prems" x show ?thesis by simp
  next
    case False
    show ?thesis
    proof (cases "map_of S m")
      case None
      with False "5.IH"(2) [of x] "5.prems" x show ?thesis by simp
    next
      case (Some node)
      with False "5.IH"(3) [of node x] "5.prems" x show ?thesis by simp
    qed
  qed
qed

lemma emitAll_Nil [simp]: "emitAll [] g = g"
  by (cases g; cases "goSource g") (simp_all add: emitAll_def)

lemma emitAll_emit: "emitAll ds (emit d g) = emitAll (d # ds) g"
  by (cases "goSource g") (simp_all add: emitAll_def emit_def)


lemma handlerNames_handlerFor [simp]: "handlerNames [handlerFor S op] = [handlerName op]"
  by (simp add: handlerFor_def)

lemma synthesize_ok:
  "goSource g \<noteq> None \<Longrightarrow> distinct (map handlerName (filter (conformant S) ops))
     \<Longrightarrow> set (map handlerName (filter (conformant S) ops)) \<inter> set (handlerNames (declsOf g)) = {}
     \<Longrightarrow> synthesize S ops g = (None, emitAll (map (handlerFor S) (filter (conformant S) ops)) g)"
proof (induction ops arbitrary: g)
  case Nil
  then show ?case by simp
next
  case (Cons op ops)
  show ?case
  proof (cases "conformant S op")
    case False
    with Cons show ?thesis by simp
  next
    case True
    from True Cons.prems have fresh: "handlerName op \<notin> set (handlerNames (declsOf g))" by auto
    have "synthesize S ops (emit (handlerFor S op) g)
        = (None, emitAll (map (handlerFor S) (filter (conformant S) ops)) (emit (handlerFor S op) g))"
      using True Cons.prems by (intro Cons.IH) (auto simp: declsOf_emit)
    with True fresh show ?thesis by (simp add: emitAll_emit)
  qed
qed

lemma synthesize_collision:
  "goSource g \<noteq> None
     \<Longrightarrow> \<not> (distinct (map handlerName (filter (conformant S) ops))
            \<and> set (map handlerName (filter (conformant S) ops)) \<inter> set (handlerNames (declsOf g)) = {})
     \<Longrightarrow> \<exists>n g'. synthesize S ops g = (Some (NamingCollisionError n), g')"
proof (induction ops arbitrary: g)
  case Nil
  then show ?case by simp
next
  case (Cons op ops)
  show ?case
  proof (cases "conformant S op")
    case False
    with Cons show ?thesis by simp
  next
    case True
    show ?thesis
    proof (cases "handlerName op \<in> set (handlerNames (declsOf g))")
      case True
      with \<open>conformant S op\<close> show ?thesis by simp
    next
      case False
      have "\<exists>n g'. synthesize S ops (emit (handlerFor S op) g) = (Some (NamingCollisionError n), g')"
        using True False Cons.prems by (intro Cons.IH) (auto simp: declsOf_emit)
      with True False show ?thesis by simp
    qed
  qed
qed

lemma synthesize_types:
  "typeNames (declsOf (snd (synthesize S ops g))) = typeNames (declsOf g)
   \<and> arrayTypeNames (declsOf (snd (synthesize S ops g))) = arrayTypeNames (declsOf g)
   \<and> generatedTypes (snd (synthesize S ops g)) = generatedTypes g
   \<and> generatedArrayTypes (snd (synthesize S ops g)) = generatedArrayTypes g"
  by (induction ops arbitrary: g) (simp_all add: declsOf_emit handlerFor_def)

lemma synthesize_goSource:
  "goSource g \<noteq> None \<Longrightarrow> goSource (snd (synthesize S ops g)) \<noteq> None"
  by (induction ops arbitrary: g) (simp_all del: not_None_eq)









lemma fresh_facts:
  "synced (freshGenerator E pp pn)"
  "goSource (freshGenerator E pp pn) \<noteq> None"
  "declsOf (freshGenerator E pp pn) = []"
  by (simp_all add: synced_def freshGenerator_def declsOf_def marked_def)

lemma BuildSchema_spec:
  assumes "BuildTypes E = specBuildTypes" "BuildHandler E = specBuildHandler"
  shows "BuildSchema E g doc pp pn =
     (case walk (schemas doc) (rootsOfAll (schemas doc) (operationsOf doc)) (freshGenerator E pp pn) of
        (Some err, g1) \<Rightarrow> (('''', Some err), g1)
      | (None, g1) \<Rightarrow>
          (case synthesize (schemas doc) (operationsOf doc) g1 of
             (Some err, g2) \<Rightarrow> (('''', Some err), g2)
           | (None, g2) \<Rightarrow> ((Sprintf_goSource E (goSource g2), None), g2)))"
  by (simp add: BuildSchema_fresh assms specBuildTypes_def specBuildHandler_def
      split: prod.splits option.splits)

lemma rootsOfAll_append [simp]: "rootsOfAll S (xs @ ys) = rootsOfAll S xs @ rootsOfAll S ys"
  by (simp add: rootsOfAll_def)

lemma typeNames_handlers [simp]:
  "typeNames (map (handlerFor S) ops) = []"
  "arrayTypeNames (map (handlerFor S) ops) = []"
  "handlerNames (map (handlerFor S) ops) = map handlerName ops"
  by (induction ops) (simp_all add: handlerFor_def)

lemma count_list_distinct: "distinct xs \<Longrightarrow> x \<in> set xs \<Longrightarrow> count_list xs x = 1"
  by (induction xs) auto

text \<open>What a successful run leaves behind.\<close>

lemma BuildSchema_spec_success:
  assumes st: "BuildTypes E = specBuildTypes" "BuildHandler E = specBuildHandler"
    and ok: "BuildSchema E g doc pp pn = ((text, None), g')"
  shows "\<exists>g1. walk (schemas doc) (rootsOfAll (schemas doc) (operationsOf doc)) (freshGenerator E pp pn) = (None, g1)
          \<and> synthesize (schemas doc) (operationsOf doc) g1 = (None, g')
          \<and> g' = emitAll (map (handlerFor (schemas doc)) (filter (conformant (schemas doc)) (operationsOf doc))) g1
          \<and> goSource g1 \<noteq> None \<and> synced g1
          \<and> text = Sprintf_goSource E (goSource g')"
proof -
  let ?S = "schemas doc" and ?ops = "operationsOf doc" and ?G = "freshGenerator E pp pn"
  obtain r1 g1 where w: "walk ?S (rootsOfAll ?S ?ops) ?G = (r1, g1)" by (cases "walk ?S (rootsOfAll ?S ?ops) ?G")
  obtain r2 g2 where s: "synthesize ?S ?ops g1 = (r2, g2)" by (cases "synthesize ?S ?ops g1")
  from ok w s have r: "r1 = None" "r2 = None" "g2 = g'" "text = Sprintf_goSource E (goSource g')"
    by (auto simp: BuildSchema_spec [OF st] split: option.splits)
  from walk_goSource [OF fresh_facts(2), of ?S "rootsOfAll ?S ?ops" E pp pn] w
  have g1: "goSource g1 \<noteq> None" by simp
  from walk_synced [OF fresh_facts(1), of ?S "rootsOfAll ?S ?ops" E pp pn] w
  have sy: "synced g1" by simp
  have "distinct (map handlerName (filter (conformant ?S) ?ops))
     \<and> set (map handlerName (filter (conformant ?S) ?ops)) \<inter> set (handlerNames (declsOf g1)) = {}"
  proof (rule ccontr)
    assume "\<not> ?thesis"
    from synthesize_collision [OF g1 this] s r show False by simp
  qed
  then have "synthesize ?S ?ops g1 = (None, emitAll (map (handlerFor ?S) (filter (conformant ?S) ?ops)) g1)"
    using g1 by (intro synthesize_ok) simp_all
  with w s r g1 sy show ?thesis by simp
qed

lemma BuildSchema_spec_types:
  assumes st: "BuildTypes E = specBuildTypes" "BuildHandler E = specBuildHandler"
  shows "synced (snd (BuildSchema E g doc pp pn))"
proof -
  let ?S = "schemas doc" and ?ops = "operationsOf doc" and ?G = "freshGenerator E pp pn"
  let ?g1 = "snd (walk ?S (rootsOfAll ?S ?ops) ?G)"
  have g1: "synced ?g1" by (rule walk_synced) (rule fresh_facts)
  have "synced (snd (synthesize ?S ?ops ?g1))"
    using g1 synthesize_types [of ?S ?ops ?g1] synthesize_goSource [of ?g1 ?S ?ops]
    by (simp add: synced_def)
  with g1 show ?thesis
    by (cases "walk ?S (rootsOfAll ?S ?ops) ?G"; cases "synthesize ?S ?ops ?g1")
       (auto simp: BuildSchema_spec [OF st] split: option.splits)
qed

lemmas run_defs = BuildSchema_fresh specEnv_def specBuildTypes_def specBuildHandler_def
    operationsOf_def rootsOfAll_def rootsOf_def docOf_def opWith_def envelopeOf_def isEnvelope_def
    resolveNode_def freshGenerator_def declareArray_def declareType_def emit_def marked_def
    isObjectName_def conformant_def declsOf_def handlerFor_def handlerName_def

lemma specEnv_stages: "BuildTypes specEnv = specBuildTypes" "BuildHandler specEnv = specBuildHandler"
  by (simp_all add: specEnv_def)

subsection \<open>Order of the declarations\<close>



subsection \<open>Deduplication\<close>

text \<open>
  Claim C5. With the modelled stages, in the buffer a run of \<open>BuildSchema\<close>
  leaves (successful or not) no type name is declared twice and no element
  name has two array wrappers. On a successful run, an element type \<open>n\<close> that
  is an object and occurs as an array element in a root of some operation
  has exactly one wrapper and exactly one type, however many operations
  mention the array.
\<close>

theorem deduplicated:
  assumes st: "BuildTypes E = specBuildTypes" "BuildHandler E = specBuildHandler"
  shows "distinct (typeNames (declsOf (snd (BuildSchema E g doc pp pn))))
       \<and> distinct (arrayTypeNames (declsOf (snd (BuildSchema E g doc pp pn))))
       \<and> (\<forall>op x n. snd (fst (BuildSchema E g doc pp pn)) = None
              \<and> op \<in> set (operationsOf doc) \<and> x \<in> set (rootsOf (schemas doc) op)
              \<and> Array (Reference n) \<in> set (subnodes x) \<and> isObjectName (schemas doc) n
            \<longrightarrow> count_list (arrayTypeNames (declsOf (snd (BuildSchema E g doc pp pn)))) n = 1
              \<and> count_list (typeNames (declsOf (snd (BuildSchema E g doc pp pn)))) n = 1)"
proof -
  let ?S = "schemas doc" and ?ops = "operationsOf doc" and ?G = "freshGenerator E pp pn"
  let ?R = "BuildSchema E g doc pp pn"
  from BuildSchema_spec_types [OF st, of g doc pp pn]
  have sy: "synced (snd ?R)" .
  then have d: "distinct (typeNames (declsOf (snd ?R)))" "distinct (arrayTypeNames (declsOf (snd ?R)))"
    by (simp_all add: synced_def)
  have "count_list (arrayTypeNames (declsOf (snd ?R))) n = 1
      \<and> count_list (typeNames (declsOf (snd ?R))) n = 1"
    if ok: "snd (fst ?R) = None" and op: "op \<in> set ?ops" and x: "x \<in> set (rootsOf ?S op)"
      and arr: "Array (Reference n) \<in> set (subnodes x)" and obj: "isObjectName ?S n"
    for op x n
  proof -
    obtain out g' where R: "?R = ((out, None), g')"
      using ok by (cases ?R) auto
    from BuildSchema_spec_success [OF st R] obtain g1 where
      w: "walk ?S (rootsOfAll ?S ?ops) ?G = (None, g1)"
      and s: "synthesize ?S ?ops g1 = (None, g')"
      by blast
    from op x have "x \<in> set (rootsOfAll ?S ?ops)" by (auto simp: rootsOfAll_def)
    with walk_visits_array [of ?S "rootsOfAll ?S ?ops" ?G x n] w arr obj
    have "marked (generatedArrayTypes g1) n \<and> marked (generatedTypes g1) n" by simp
    with synthesize_types [of ?S ?ops g1] s
    have "marked (generatedArrayTypes g') n \<and> marked (generatedTypes g') n" by simp
    with sy R have "n \<in> set (arrayTypeNames (declsOf g'))" "n \<in> set (typeNames (declsOf g'))"
      by (simp_all add: synced_def)
    with d R show ?thesis by (simp add: count_list_distinct)
  qed
  with d show ?thesis by blast
qed

theorem deduplicated_witness:
  "count_list (arrayTypeNames (declsOf (snd (BuildSchema specEnv zeroGenerator fooDoc ''example.org/foo'' ''foo'')))) ''Foo'' = 1
   \<and> count_list (typeNames (declsOf (snd (BuildSchema specEnv zeroGenerator fooDoc ''example.org/foo'' ''foo'')))) ''Foo'' = 1
   \<and> map declName (declsOf (snd (BuildSchema specEnv zeroGenerator fooDoc ''example.org/foo'' ''foo'')))
       = [''type []Foo; '', ''type Foo; '', ''func listFoos; '', ''func createFoos; '', ''func replaceFoos; '']"
proof -
  let ?R = "BuildSchema specEnv zeroGenerator fooDoc ''example.org/foo'' ''foo''"
  let ?b = "envelopeOf (Array (Reference ''Foo''))"
  have ok: "snd (fst ?R) = None"
    by (simp add: run_defs fooDoc_def)
  have op: "opWith ''listFoos'' ?b \<in> set (operationsOf fooDoc)"
    by (simp add: fooDoc_def docOf_def operationsOf_def)
  have x: "?b \<in> set (rootsOf (schemas fooDoc) (opWith ''listFoos'' ?b))"
    by (simp add: run_defs fooDoc_def)
  have arr: "Array (Reference ''Foo'') \<in> set (subnodes ?b)"
    by (simp add: envelopeOf_def)
  have obj: "isObjectName (schemas fooDoc) ''Foo''"
    by (simp add: isObjectName_def fooDoc_def docOf_def)
  from deduplicated [OF specEnv_stages, of zeroGenerator fooDoc "''example.org/foo''" "''foo''"]
    ok op x arr obj
  have c: "count_list (arrayTypeNames (declsOf (snd ?R))) ''Foo'' = 1
      \<and> count_list (typeNames (declsOf (snd ?R))) ''Foo'' = 1"
    by blast
  have n: "map declName (declsOf (snd ?R))
      = [''type []Foo; '', ''type Foo; '', ''func listFoos; '', ''func createFoos; '', ''func replaceFoos; '']"
    by (simp add: run_defs fooDoc_def)
  from c n show ?thesis by simp
qed

subsection \<open>Cycles\<close>




end
